theory Spec2Isabelle
  imports Complex_Main "HOL-Library.Sublist"
begin

section \<open>Cebu pocket guide: a model of \<^verbatim>\<open>app.py\<close>\<close>

text \<open>
  The program is one Python script. Its three parts are embedded here in the order of the
  source: the distance function \<^verbatim>\<open>haversine\<close>, the places search
  \<^verbatim>\<open>search_places\<close> with its one-hour cache, and the script body that filters, sorts,
  truncates and renders the places found.

  Conventions of the embedding.
  \<^item> A Python \<^verbatim>\<open>float\<close> is a real number: infinities and NaN are left out. Rounding is
    left out too, except in the distance function, whose arithmetic is a parameter; the
    places search computes its distances with the exact instance of it.
  \<^item> A Python exception is a value of type \<open>exn\<close>; a computation that may raise has the
    type \<open>exn + 'a\<close>, with \<open>Inl\<close> for the exception raised.
  \<^item> A value parsed from the provider's JSON body is a value of type \<open>json\<close>; a Python
    \<^verbatim>\<open>dict\<close> parsed from JSON is the association list of its items.
  \<^item> What the script shows with \<^verbatim>\<open>st.error\<close> is returned as a list of messages
    beside the function's return value.
\<close>

subsection \<open>Exceptions\<close>

datatype exn =
    Timeout
  | RequestException string
  | AttributeError
  | TypeError
  | ValueError
  | OtherException string

definition bind_exn :: "exn + 'a \<Rightarrow> ('a \<Rightarrow> exn + 'b) \<Rightarrow> exn + 'b" where
  "bind_exn m f = (case m of Inl e \<Rightarrow> Inl e | Inr v \<Rightarrow> f v)"

subsection \<open>The distance function\<close>

text \<open>
  \<^verbatim>\<open>haversine\<close> computes on floats, and one of the properties below depends on the
  rounding. The arithmetic is therefore a parameter of the function: \<open>rnd\<close> rounds the
  exact result of \<^verbatim>\<open>+\<close>, \<^verbatim>\<open>-\<close>, \<^verbatim>\<open>*\<close>, \<^verbatim>\<open>/\<close> and of the square root to a
  float, \<open>deg_to_rad\<close> is the float constant by which \<^verbatim>\<open>math.radians\<close> multiplies, and
  \<open>fl_sin\<close>, \<open>fl_cos\<close>, \<open>fl_pow2\<close> (for \<^verbatim>\<open>** 2\<close>) and \<open>fl_atan2\<close> are the functions of
  the mathematics library on floats.
\<close>

record float_ops =
  rnd :: "real \<Rightarrow> real"
  deg_to_rad :: real
  fl_sin :: "real \<Rightarrow> real"
  fl_cos :: "real \<Rightarrow> real"
  fl_pow2 :: "real \<Rightarrow> real"
  fl_atan2 :: "real \<Rightarrow> real \<Rightarrow> real"

text \<open>
  \<^verbatim>\<open>math.atan2 y x\<close> in exact arithmetic: the angle of the point \<open>(x, y)\<close>, in
  \<open>(-\<pi>, \<pi>]\<close>, with \<^verbatim>\<open>atan2(0, 0) = 0\<close>.
\<close>

definition atan2 :: "real \<Rightarrow> real \<Rightarrow> real" where
  "atan2 y x =
     (if 0 < x then arctan (y / x)
      else if x < 0 then (if 0 \<le> y then arctan (y / x) + pi else arctan (y / x) - pi)
      else if 0 < y then pi / 2
      else if y < 0 then - (pi / 2)
      else 0)"

text \<open>Exact arithmetic: nothing is rounded.\<close>

definition exact :: float_ops where
  "exact = \<lparr>rnd = (\<lambda>x. x), deg_to_rad = pi / 180, fl_sin = sin, fl_cos = cos,
            fl_pow2 = (\<lambda>x. x\<^sup>2), fl_atan2 = atan2\<rparr>"

text \<open>\<^verbatim>\<open>math.radians(x)\<close> multiplies by the constant.\<close>

definition radians_fl :: "float_ops \<Rightarrow> real \<Rightarrow> real" where
  "radians_fl ops x = rnd ops (x * deg_to_rad ops)"

text \<open>
  \<^verbatim>\<open>math.sqrt\<close> raises \<^verbatim>\<open>ValueError\<close> on a negative argument.
\<close>

definition sqrt_fl :: "float_ops \<Rightarrow> real \<Rightarrow> exn + real" where
  "sqrt_fl ops x = (if x < 0 then Inl ValueError else Inr (rnd ops (sqrt x)))"

text \<open>
  The argument of the two square roots in \<^verbatim>\<open>haversine\<close>:
  \<^verbatim>\<open>a = sin(dlat/2)**2 + cos(radians(lat1)) * cos(radians(lat2)) * sin(dlon/2)**2\<close>,
  every operation rounded, the product taken from the left.
\<close>

definition hav_a_fl :: "float_ops \<Rightarrow> real \<Rightarrow> real \<Rightarrow> real \<Rightarrow> real \<Rightarrow> real" where
  "hav_a_fl ops lat1 lon1 lat2 lon2 =
     (let dlat = radians_fl ops (rnd ops (lat2 - lat1));
          dlon = radians_fl ops (rnd ops (lon2 - lon1))
      in rnd ops
           (fl_pow2 ops (fl_sin ops (rnd ops (dlat / 2)))
            + rnd ops
                (rnd ops (fl_cos ops (radians_fl ops lat1) * fl_cos ops (radians_fl ops lat2))
                 * fl_pow2 ops (fl_sin ops (rnd ops (dlon / 2))))))"

text \<open>
  \<^verbatim>\<open>return R * 2 * math.atan2(math.sqrt(a), math.sqrt(1 - a))\<close>; \<^verbatim>\<open>R * 2\<close> is a
  product of integers.
\<close>

definition haversine_fl :: "float_ops \<Rightarrow> real \<Rightarrow> real \<Rightarrow> real \<Rightarrow> real \<Rightarrow> exn + real" where
  "haversine_fl ops lat1 lon1 lat2 lon2 =
     (let R = 6371;
          a = hav_a_fl ops lat1 lon1 lat2 lon2
      in bind_exn (sqrt_fl ops a) (\<lambda>sa.
         bind_exn (sqrt_fl ops (rnd ops (1 - a))) (\<lambda>sb.
         Inr (rnd ops (R * 2 * fl_atan2 ops sa sb)))))"

text \<open>
  The function in exact arithmetic. The search and the script below are modelled with it:
  their properties do not depend on the rounding.
\<close>

definition radians :: "real \<Rightarrow> real" where
  "radians = radians_fl exact"

definition py_sqrt :: "real \<Rightarrow> exn + real" where
  "py_sqrt = sqrt_fl exact"

definition hav_a :: "real \<Rightarrow> real \<Rightarrow> real \<Rightarrow> real \<Rightarrow> real" where
  "hav_a = hav_a_fl exact"

definition haversine :: "real \<Rightarrow> real \<Rightarrow> real \<Rightarrow> real \<Rightarrow> exn + real" where
  "haversine = haversine_fl exact"




subsection \<open>Values parsed from the provider's JSON body\<close>

datatype json =
    JNull
  | JBool bool
  | JInt int
  | JFloat real
  | JStr string
  | JArr "json list"
  | JObj "(string \<times> json) list"

text \<open>
  \<^verbatim>\<open>d.get(k, default)\<close>: the value stored under \<open>k\<close>, the default when the key is
  absent. Only a \<^verbatim>\<open>dict\<close> has the method; on every other value the attribute lookup
  raises \<^verbatim>\<open>AttributeError\<close>. \<^verbatim>\<open>d.get(k)\<close> is \<^verbatim>\<open>d.get(k, None)\<close>, and
  \<^verbatim>\<open>None\<close> is \<open>JNull\<close>.
\<close>

fun dict_get :: "json \<Rightarrow> string \<Rightarrow> json \<Rightarrow> exn + json" where
  "dict_get (JObj kvs) k d = Inr (case map_of kvs k of None \<Rightarrow> d | Some v \<Rightarrow> v)"
| "dict_get _ k d = Inl AttributeError"

text \<open>
  \<^verbatim>\<open>for p in v\<close>: a list gives its elements, a \<^verbatim>\<open>dict\<close> its keys, a string its
  characters; nothing else is iterable.
\<close>

fun py_iter :: "json \<Rightarrow> exn + json list" where
  "py_iter (JArr xs) = Inr xs"
| "py_iter (JObj kvs) = Inr (map (\<lambda>kv. JStr (fst kv)) kvs)"
| "py_iter (JStr s) = Inr (map (\<lambda>c. JStr [c]) s)"
| "py_iter _ = Inl TypeError"

text \<open>
  A value used as a number, in \<^verbatim>\<open>lat2 - lat1\<close> and in \<^verbatim>\<open>p["rating"] >= 4.0\<close>:
  \<^verbatim>\<open>int\<close>, \<^verbatim>\<open>float\<close> and \<^verbatim>\<open>bool\<close> (\<^verbatim>\<open>True\<close> is 1) are numbers, every other
  value raises \<^verbatim>\<open>TypeError\<close>.
\<close>

fun py_number :: "json \<Rightarrow> exn + real" where
  "py_number (JInt i) = Inr (real_of_int i)"
| "py_number (JFloat r) = Inr r"
| "py_number (JBool b) = Inr (if b then 1 else 0)"
| "py_number _ = Inl TypeError"

text \<open>The two Korean default strings of the source, as their UTF-8 bytes.\<close>

definition NO_NAME :: string where
  "NO_NAME = [CHR 0xEC, CHR 0x9D, CHR 0xB4, CHR 0xEB, CHR 0xA6, CHR 0x84, CHR 0x20,
              CHR 0xEC, CHR 0x97, CHR 0x86, CHR 0xEC, CHR 0x9D, CHR 0x8C]"

definition UNKNOWN_ERROR :: string where
  "UNKNOWN_ERROR = [CHR 0xEC, CHR 0x95, CHR 0x8C, CHR 0x20, CHR 0xEC, CHR 0x88, CHR 0x98,
                    CHR 0x20, CHR 0xEC, CHR 0x97, CHR 0x86, CHR 0xEB, CHR 0x8A, CHR 0x94,
                    CHR 0x20, CHR 0xEC, CHR 0x98, CHR 0xA4, CHR 0xEB, CHR 0xA5, CHR 0x98]"

subsection \<open>The places search\<close>

text \<open>
  One entry of \<^verbatim>\<open>results\<close>: the \<^verbatim>\<open>dict\<close> that \<^verbatim>\<open>search_places\<close> appends for a
  place. Every field but \<open>dist_km\<close> holds what the provider sent, or the default.
\<close>

record place =
  name :: json
  rating :: json
  reviews :: json
  lat :: json
  lng :: json
  address :: json
  is_open :: json
  place_id :: json
  dist_km :: real

text \<open>
  The request of \<^verbatim>\<open>requests.get(url, params=params, timeout=10)\<close>. The API key is
  configuration and belongs to the provider's side of the model. The provider answers a
  request with the parsed body, or the call (\<^verbatim>\<open>get\<close>, \<^verbatim>\<open>raise_for_status\<close>,
  \<^verbatim>\<open>json\<close>) raises.
\<close>

record request =
  param_location :: "real \<times> real"
  param_radius :: int
  param_keyword :: string
  param_language :: string
  timeout :: nat

type_synonym provider = "request \<Rightarrow> exn + json"

text \<open>What \<^verbatim>\<open>st.error\<close> shows: one constructor for each of the four messages.\<close>

datatype ui_message =
    GoogleApiError json
  | TimeoutMessage
  | NetworkError string
  | UnexpectedError exn

text \<open>The body of the loop over \<^verbatim>\<open>data.get("results", [])\<close>.\<close>

definition place_of :: "real \<Rightarrow> real \<Rightarrow> json \<Rightarrow> exn + place" where
  "place_of base_lat base_lng p =
     bind_exn (dict_get p ''geometry'' (JObj [])) (\<lambda>geometry.
     bind_exn (dict_get geometry ''location'' (JObj [])) (\<lambda>loc.
     bind_exn (dict_get loc ''lat'' (JInt 0)) (\<lambda>p_lat.
     bind_exn (dict_get loc ''lng'' (JInt 0)) (\<lambda>p_lng.
     bind_exn (dict_get p ''opening_hours'' JNull) (\<lambda>opening.
     bind_exn (if opening \<noteq> JNull then dict_get opening ''open_now'' JNull else Inr JNull)
       (\<lambda>open_now.
     bind_exn (dict_get p ''name'' (JStr NO_NAME)) (\<lambda>p_name.
     bind_exn (dict_get p ''rating'' (JInt 0)) (\<lambda>p_rating.
     bind_exn (dict_get p ''user_ratings_total'' (JInt 0)) (\<lambda>p_reviews.
     bind_exn (dict_get p ''vicinity'' (JStr [])) (\<lambda>p_address.
     bind_exn (dict_get p ''place_id'' (JStr [])) (\<lambda>p_id.
     bind_exn (py_number p_lat) (\<lambda>lat2.
     bind_exn (py_number p_lng) (\<lambda>lon2.
     bind_exn (haversine base_lat base_lng lat2 lon2) (\<lambda>d.
     Inr \<lparr>name = p_name, rating = p_rating, reviews = p_reviews, lat = p_lat, lng = p_lng,
          address = p_address, is_open = open_now, place_id = p_id, dist_km = d\<rparr>
     ))))))))))))))"

fun places_of :: "real \<Rightarrow> real \<Rightarrow> json list \<Rightarrow> exn + place list" where
  "places_of base_lat base_lng [] = Inr []"
| "places_of base_lat base_lng (p # ps) =
     bind_exn (place_of base_lat base_lng p) (\<lambda>r.
     bind_exn (places_of base_lat base_lng ps) (\<lambda>rs.
     Inr (r # rs)))"

text \<open>
  The \<^verbatim>\<open>try\<close> block of \<^verbatim>\<open>search_places\<close>: the messages shown and the list returned,
  or the exception that leaves the block.
\<close>

definition status_accepted :: "json \<Rightarrow> bool" where
  "status_accepted s \<longleftrightarrow> s = JStr ''OK'' \<or> s = JStr ''ZERO_RESULTS''"

definition params :: "real \<Rightarrow> real \<Rightarrow> string \<Rightarrow> int \<Rightarrow> request" where
  "params base_lat base_lng keyword radius =
     \<lparr>param_location = (base_lat, base_lng), param_radius = radius,
      param_keyword = keyword, param_language = ''ko'', timeout = 10\<rparr>"

definition search_try :: "provider \<Rightarrow> real \<Rightarrow> real \<Rightarrow> string \<Rightarrow> int
    \<Rightarrow> exn + (ui_message list \<times> place list)" where
  "search_try prov base_lat base_lng keyword radius =
     bind_exn (prov (params base_lat base_lng keyword radius)) (\<lambda>data.
     bind_exn (dict_get data ''status'' JNull) (\<lambda>st.
     if \<not> status_accepted st then
       bind_exn (dict_get data ''status'' (JStr UNKNOWN_ERROR)) (\<lambda>dflt.
       bind_exn (dict_get data ''error_message'' dflt) (\<lambda>error_msg.
       Inr ([GoogleApiError error_msg], [])))
     else
       bind_exn (dict_get data ''results'' (JArr [])) (\<lambda>rs.
       bind_exn (py_iter rs) (\<lambda>items.
       bind_exn (places_of base_lat base_lng items) (\<lambda>results.
       Inr ([], results))))))"

text \<open>
  \<^verbatim>\<open>search_places\<close> with its three handlers, in the order of the source:
  \<^verbatim>\<open>Timeout\<close>, \<^verbatim>\<open>RequestException\<close>, \<^verbatim>\<open>Exception\<close>. Each shows a message and
  returns the empty list.
\<close>

definition search_places :: "provider \<Rightarrow> real \<Rightarrow> real \<Rightarrow> string \<Rightarrow> int
    \<Rightarrow> ui_message list \<times> place list" where
  "search_places prov base_lat base_lng keyword radius =
     (case search_try prov base_lat base_lng keyword radius of
        Inr r \<Rightarrow> r
      | Inl Timeout \<Rightarrow> ([TimeoutMessage], [])
      | Inl (RequestException e) \<Rightarrow> ([NetworkError e], [])
      | Inl e \<Rightarrow> ([UnexpectedError e], []))"

subsection \<open>The cache of the search\<close>

text \<open>
  \<^verbatim>\<open>@st.cache_data(ttl=3600)\<close>: the value the function returned is stored under the
  tuple of its arguments, with the time of the call, and a later call with the same
  arguments gets the stored value without running the function while the entry is younger
  than 3600 seconds. Time is a number of seconds. The world outside is the sequence of
  the provider's answers: \<open>world n\<close> is the provider at its \<open>n\<close>-th invocation, and
  \<open>calls\<close> counts the invocations made so far. The function returns normally on every
  path, so every run of it stores its value. The messages are left out here: a cached
  call gives the list.
\<close>

type_synonym cache_key = "real \<times> real \<times> string \<times> int"

record session =
  cache :: "cache_key \<Rightarrow> (nat \<times> place list) option"
  calls :: nat

definition ttl :: nat where
  "ttl = 3600"

definition cache_lookup :: "session \<Rightarrow> nat \<Rightarrow> cache_key \<Rightarrow> place list option" where
  "cache_lookup s now k =
     (case cache s k of
        None \<Rightarrow> None
      | Some (t, v) \<Rightarrow> if now < t + ttl then Some v else None)"

definition cached_search_places :: "(nat \<Rightarrow> provider) \<Rightarrow> nat \<Rightarrow> session
    \<Rightarrow> real \<Rightarrow> real \<Rightarrow> string \<Rightarrow> int \<Rightarrow> place list \<times> session" where
  "cached_search_places world now s base_lat base_lng keyword radius =
     (let k = (base_lat, base_lng, keyword, radius) in
      case cache_lookup s now k of
        Some v \<Rightarrow> (v, s)
      | None \<Rightarrow>
          (let v = snd (search_places (world (calls s)) base_lat base_lng keyword radius)
           in (v, \<lparr>cache = (cache s)(k \<mapsto> (now, v)), calls = calls s + 1\<rparr>)))"

subsection \<open>The script: filter, sort, truncate, render\<close>

text \<open>
  \<^verbatim>\<open>filtered = [p for p in raw if p["rating"] >= 4.0]\<close>; the comparison raises
  \<^verbatim>\<open>TypeError\<close> on a rating that is not a number.
\<close>

fun filter_rating :: "real \<Rightarrow> place list \<Rightarrow> exn + place list" where
  "filter_rating min_rating [] = Inr []"
| "filter_rating min_rating (p # ps) =
     bind_exn (py_number (rating p)) (\<lambda>r.
     bind_exn (filter_rating min_rating ps) (\<lambda>rest.
     Inr (if r \<ge> min_rating then p # rest else rest)))"

text \<open>
  \<^verbatim>\<open>filtered.sort(key=lambda x: x["dist_km"])\<close> is a stable sort, as \<open>sort_key\<close> is;
  \<^verbatim>\<open>filtered[:10]\<close> is \<open>take 10\<close>. The source fixes the threshold 4.0 and the length 10;
  they are parameters here, and \<open>top10\<close> is the source's instance.
\<close>

definition recommend :: "real \<Rightarrow> nat \<Rightarrow> place list \<Rightarrow> exn + place list" where
  "recommend min_rating top_n raw =
     bind_exn (filter_rating min_rating raw) (\<lambda>filtered.
     Inr (take top_n (sort_key dist_km filtered)))"

definition top10 :: "place list \<Rightarrow> exn + place list" where
  "top10 raw = recommend 4.0 10 raw"

text \<open>The opening state shown on a card: \<^verbatim>\<open>is True\<close>, \<^verbatim>\<open>is False\<close>, anything else.\<close>

datatype open_status = OPEN | CLOSED | UNKNOWN

definition status :: "place \<Rightarrow> open_status" where
  "status p =
     (if is_open p = JBool True then OPEN
      else if is_open p = JBool False then CLOSED
      else UNKNOWN)"

text \<open>
  The Grab note at the end of the script, computed under \<^verbatim>\<open>if top10:\<close>:
  \<^verbatim>\<open>avg_dist = sum(p["dist_km"] for p in top10) / len(top10)\<close> and
  \<^verbatim>\<open>grab_est = max(60, 40 + avg_dist * 15)\<close>.
\<close>

definition avg_dist :: "place list \<Rightarrow> real" where
  "avg_dist shown = sum_list (map dist_km shown) / real (length shown)"

definition grab_est :: "real \<Rightarrow> real" where
  "grab_est avg = max 60 (40 + avg * 15)"

definition grab_info :: "place list \<Rightarrow> (real \<times> real) option" where
  "grab_info shown =
     (if shown \<noteq> [] then Some (avg_dist shown, grab_est (avg_dist shown)) else None)"

text \<open>
  The card of a place. Of what it shows, one format can raise:
  \<^verbatim>\<open>f"{place['reviews']:,}"\<close> takes a number (a \<^verbatim>\<open>bool\<close> is one), raises
  \<^verbatim>\<open>ValueError\<close> on a string and \<^verbatim>\<open>TypeError\<close> on every other value. The name, the
  address, the rating and the place id are shown as they are, and \<open>dist_km\<close> is a float.
  The value of \<open>format_thousands\<close> is the number whose digits the card groups.
\<close>

fun format_thousands :: "json \<Rightarrow> exn + real" where
  "format_thousands (JInt i) = Inr (real_of_int i)"
| "format_thousands (JFloat r) = Inr r"
| "format_thousands (JBool b) = Inr (if b then 1 else 0)"
| "format_thousands (JStr s) = Inl ValueError"
| "format_thousands _ = Inl TypeError"

text \<open>
  \<^verbatim>\<open>for i, place in enumerate(top10, 1)\<close>: the cards in order, each with its rank and
  the opening state it shows; the first exception ends the loop.
\<close>

fun render_cards :: "nat \<Rightarrow> place list \<Rightarrow> exn + (nat \<times> open_status) list" where
  "render_cards i [] = Inr []"
| "render_cards i (p # ps) =
     bind_exn (format_thousands (reviews p)) (\<lambda>n.
     bind_exn (render_cards (i + 1) ps) (\<lambda>cards.
     Inr ((i, status p) # cards)))"

text \<open>
  The script after the search. It stops with a warning when the search returned nothing
  and when no place passes the filter; otherwise it renders the cards, the two counts of
  the success line and the Grab note. An exception of the filter or of a card is not
  caught: the script ends with it, before the Grab note.
\<close>

datatype warning = NoSearchResults | NoRatedPlaces

record rendered =
  shown :: "place list"
  shown_count :: nat
  raw_count :: nat
  grab :: "(real \<times> real) option"

datatype page = Crashed exn | Stopped warning | Rendered rendered

definition run_page :: "place list \<Rightarrow> page" where
  "run_page raw =
     (if raw = [] then Stopped NoSearchResults
      else case top10 raw of
        Inl e \<Rightarrow> Crashed e
      | Inr t \<Rightarrow>
          if t = [] then Stopped NoRatedPlaces
          else case render_cards 1 t of
            Inl e \<Rightarrow> Crashed e
          | Inr cards \<Rightarrow>
              Rendered \<lparr>shown = t, shown_count = length t, raw_count = length raw,
                        grab = grab_info t\<rparr>)"

subsection \<open>Vocabulary of the properties\<close>

text \<open>
  What the provider reported under a path of keys: \<open>None\<close> when a key of the path is
  absent or the value on the way is not an object.
\<close>

fun json_field :: "json \<Rightarrow> string \<Rightarrow> json option" where
  "json_field (JObj kvs) k = map_of kvs k"
| "json_field _ k = None"

fun json_path :: "json \<Rightarrow> string list \<Rightarrow> json option" where
  "json_path v [] = Some v"
| "json_path v (k # ks) =
     (case json_field v k of None \<Rightarrow> None | Some w \<Rightarrow> json_path w ks)"

definition or_default :: "json option \<Rightarrow> json \<Rightarrow> json" where
  "or_default v d = (case v of None \<Rightarrow> d | Some w \<Rightarrow> w)"

text \<open>A place whose rating is a number and at least the threshold.\<close>

definition rating_at_least :: "real \<Rightarrow> place \<Rightarrow> bool" where
  "rating_at_least min_rating p =
     (case py_number (rating p) of Inl e \<Rightarrow> False | Inr r \<Rightarrow> min_rating \<le> r)"

definition numeric_rating :: "place \<Rightarrow> bool" where
  "numeric_rating p = (case py_number (rating p) of Inl e \<Rightarrow> False | Inr r \<Rightarrow> True)"

text \<open>A place whose review count the card can format.\<close>

definition numeric_reviews :: "place \<Rightarrow> bool" where
  "numeric_reviews p = (case format_thousands (reviews p) of Inl e \<Rightarrow> False | Inr n \<Rightarrow> True)"




text \<open>
  Places and provider answers used as concrete inputs. The origin \<open>(10.3119, 123.8916)\<close>
  is the first entry of the table \<^verbatim>\<open>HOTELS\<close> of the source, \<open>(10.2655, 123.9633)\<close> the
  second; the keywords are values of its table \<^verbatim>\<open>CATEGORIES\<close>, the radii 1000, 3000 and
  5000 metres the choices of its sidebar.
\<close>

definition a_place :: "string \<Rightarrow> real \<Rightarrow> real \<Rightarrow> place" where
  "a_place n r d =
     \<lparr>name = JStr n, rating = JFloat r, reviews = JInt 0, lat = JInt 0, lng = JInt 0,
      address = JStr [], is_open = JNull, place_id = JStr [], dist_km = d\<rparr>"

definition two_places :: "place list" where
  "two_places = [a_place ''A'' 3.9 2, a_place ''B'' 4.0 10]"

definition three_places :: "place list" where
  "three_places = [a_place ''A'' 3.9 2, a_place ''B'' 4.0 1, a_place ''C'' 4.5 3]"

definition provider_zero_results :: provider where
  "provider_zero_results =
     (\<lambda>req. Inr (JObj [(''status'', JStr ''ZERO_RESULTS''), (''results'', JArr [])]))"

definition provider_over_query_limit :: provider where
  "provider_over_query_limit = (\<lambda>req. Inr (JObj [(''status'', JStr ''OVER_QUERY_LIMIT'')]))"

definition provider_timeout :: provider where
  "provider_timeout = (\<lambda>req. Inl Timeout)"



text \<open>A spa at the coordinates of the first hotel, open, rated 4.5.\<close>

definition hotel_spa :: json where
  "hotel_spa =
     JObj [(''name'', JStr ''Spa''), (''rating'', JFloat 4.5),
           (''geometry'', JObj [(''location'',
               JObj [(''lat'', JFloat 10.3119), (''lng'', JFloat 123.8916)])]),
           (''opening_hours'', JObj [(''open_now'', JBool True)])]"

definition spa_place :: place where
  "spa_place =
     \<lparr>name = JStr ''Spa'', rating = JFloat 4.5, reviews = JInt 0,
      lat = JFloat 10.3119, lng = JFloat 123.8916, address = JStr [],
      is_open = JBool True, place_id = JStr [], dist_km = 0\<rparr>"




definition provider_ok :: provider where
  "provider_ok = (\<lambda>req. Inr (JObj [(''status'', JStr ''OK''), (''results'', JArr [hotel_spa])]))"

text \<open>A provider that times out at its first invocation and answers from then on.\<close>

definition world_recovering :: "nat \<Rightarrow> provider" where
  "world_recovering n = (if n = 0 then provider_timeout else provider_ok)"

definition empty_session :: session where
  "empty_session = \<lparr>cache = (\<lambda>k. None), calls = 0\<rparr>"

text \<open>
  The session after one search for spas around the first hotel, made at time 0 in an empty
  session, while the provider times out.
\<close>

definition session_after_timeout :: session where
  "session_after_timeout =
     snd (cached_search_places world_recovering 0 empty_session
            10.3119 123.8916 ''spa|massage'' 3000)"

section \<open>Properties\<close>

subsection \<open>Exceptions\<close>

lemma bind_exn_Inr_iff: "bind_exn m f = Inr y \<longleftrightarrow> (\<exists>v. m = Inr v \<and> f v = Inr y)"
  by (cases m) (simp_all add: bind_exn_def)

lemma bind_exn_Inr [simp]: "bind_exn (Inr v) f = f v"
  by (simp add: bind_exn_def)

lemma bind_exn_Inl [simp]: "bind_exn (Inl e) f = Inl e"
  by (simp add: bind_exn_def)

subsection \<open>The distance function\<close>

lemma radians_exact: "radians x = x * pi / 180"
  by (simp add: radians_def radians_fl_def exact_def)

lemma py_sqrt_exact: "py_sqrt x = (if x < 0 then Inl ValueError else Inr (sqrt x))"
  by (simp add: py_sqrt_def sqrt_fl_def exact_def)

lemma hav_a_exact:
  "hav_a lat1 lon1 lat2 lon2 =
     (let dlat = radians (lat2 - lat1);
          dlon = radians (lon2 - lon1)
      in (sin (dlat / 2))\<^sup>2
         + cos (radians lat1) * cos (radians lat2) * (sin (dlon / 2))\<^sup>2)"
  by (simp add: hav_a_def hav_a_fl_def radians_def radians_fl_def exact_def Let_def)

lemma haversine_exact:
  "haversine lat1 lon1 lat2 lon2 =
     (let R = 6371;
          a = hav_a lat1 lon1 lat2 lon2
      in bind_exn (py_sqrt a) (\<lambda>sa.
         bind_exn (py_sqrt (1 - a)) (\<lambda>sb.
         Inr (R * 2 * atan2 sa sb))))"
  by (simp add: haversine_def haversine_fl_def hav_a_def py_sqrt_def exact_def Let_def)

lemma radians_minus: "radians (y - x) = - radians (x - y)"
  by (simp add: radians_exact field_simps)

lemma radians_diff: "radians (y - x) = radians y - radians x"
  by (simp add: radians_exact field_simps)

lemma hav_a_same: "hav_a lat0 lon0 lat0 lon0 = 0"
  by (simp add: hav_a_exact radians_exact)

lemma sin_half_sq_sym: "(sin (radians (y - x) / 2))\<^sup>2 = (sin (radians (x - y) / 2))\<^sup>2"
proof -
  have "radians (y - x) / 2 = - (radians (x - y) / 2)"
    by (simp add: radians_minus [of y x])
  then show ?thesis by (simp only: sin_minus power2_minus)
qed

lemma hav_a_sym: "hav_a lat1 lon1 lat2 lon2 = hav_a lat2 lon2 lat1 lon1"
  by (simp add: hav_a_exact Let_def sin_half_sq_sym [of lat1 lat2] sin_half_sq_sym [of lon1 lon2]
      mult.commute)

lemma sin_half_sq: "(sin (t / 2))\<^sup>2 = (1 - cos t) / 2" for t :: real
proof -
  have "cos (2 * (t / 2)) = 1 - 2 * (sin (t / 2))\<^sup>2"
    by (rule cos_double_sin)
  moreover have "2 * (t / 2) = t" by simp
  ultimately have "cos t = 1 - 2 * (sin (t / 2))\<^sup>2" by simp
  then show ?thesis by simp
qed

lemma hav_a_le_one: "hav_a lat1 lon1 lat2 lon2 \<le> 1"
proof -
  define p where "p = radians lat1"
  define q where "q = radians lat2"
  define s where "s = (sin (radians (lon2 - lon1) / 2))\<^sup>2"
  define c where "c = cos p * cos q"
  define u where "u = c * s"
  have s01: "0 \<le> s" "s \<le> 1"
    by (simp_all add: s_def abs_square_le_1)
  have a: "hav_a lat1 lon1 lat2 lon2 = (1 - cos (q - p)) / 2 + u"
    by (simp add: hav_a_exact Let_def radians_diff [of lat2 lat1] sin_half_sq
        p_def q_def s_def c_def u_def)
  show ?thesis
  proof (cases "0 \<le> c")
    case True
    then have "u \<le> c"
      unfolding u_def using s01 by (simp add: mult_left_le)
    then have "(1 - cos (q - p)) / 2 + u \<le> (1 - cos (q - p)) / 2 + c"
      by simp
    also have "\<dots> = (1 + cos (q + p)) / 2"
      by (simp add: c_def cos_diff cos_add field_simps)
    also have "\<dots> \<le> 1"
      using cos_le_one [of "q + p"] by simp
    finally show ?thesis unfolding a .
  next
    case False
    then have "u \<le> 0"
      unfolding u_def using s01 by (simp add: mult_nonpos_nonneg)
    moreover have "- 1 \<le> cos (q - p)" by simp
    ultimately show ?thesis unfolding a by argo
  qed
qed



lemma atan2_nonneg:
  assumes "0 \<le> y"
  shows "0 \<le> atan2 y x"
proof -
  have "0 \<le> arctan (y / x)" if "0 < x"
    using that assms by (simp add: zero_le_divide_iff)
  moreover have "0 \<le> arctan (y / x) + pi"
    using arctan_lbound [of "y / x"] pi_gt_zero by linarith
  ultimately show ?thesis using assms by (simp add: atan2_def)
qed

lemma atan2_zero_one: "atan2 0 1 = 0"
  by (simp add: atan2_def)


lemma haversine_eq:
  assumes "0 \<le> hav_a lat1 lon1 lat2 lon2"
  shows "haversine lat1 lon1 lat2 lon2 =
         Inr (6371 * 2 * atan2 (sqrt (hav_a lat1 lon1 lat2 lon2))
                               (sqrt (1 - hav_a lat1 lon1 lat2 lon2)))"
  using assms hav_a_le_one [of lat1 lon1 lat2 lon2]
  by (simp add: haversine_exact Let_def py_sqrt_exact bind_exn_def)

lemma haversine_same: "haversine lat0 lon0 lat0 lon0 = Inr 0"
  by (simp add: haversine_eq hav_a_same atan2_zero_one)

lemma haversine_sym: "haversine lat1 lon1 lat2 lon2 = haversine lat2 lon2 lat1 lon1"
  by (simp add: haversine_exact hav_a_sym [of lat1 lon1 lat2 lon2])

lemma haversine_nonneg:
  assumes "haversine lat1 lon1 lat2 lon2 = Inr d"
  shows "0 \<le> d"
proof -
  define a where "a = hav_a lat1 lon1 lat2 lon2"
  have a0: "0 \<le> a"
    using assms
    by (auto simp: a_def haversine_exact Let_def py_sqrt_exact bind_exn_def split: if_splits)
  then have "d = 6371 * 2 * atan2 (sqrt a) (sqrt (1 - a))"
    using assms unfolding a_def by (simp add: haversine_eq)
  moreover have "0 \<le> atan2 (sqrt a) (sqrt (1 - a))"
    using a0 by (intro atan2_nonneg) simp
  ultimately show ?thesis by simp
qed

















subsection \<open>The places search\<close>

lemma dict_get_Inr: "dict_get v k d = Inr w \<Longrightarrow> w = or_default (json_field v k) d"
  by (cases v) (simp_all add: or_default_def)

lemma dict_get_JObj: "dict_get (JObj kvs) k d = Inr (or_default (map_of kvs k) d)"
  by (simp add: or_default_def)

lemma search_places_Inl:
  "search_try prov a b k r = Inl e \<Longrightarrow>
   search_places prov a b k r =
     ([case e of Timeout \<Rightarrow> TimeoutMessage | RequestException m \<Rightarrow> NetworkError m
       | _ \<Rightarrow> UnexpectedError e], [])"
  by (simp add: search_places_def split: exn.splits)

lemma search_places_Inr:
  "search_try prov a b k r = Inr v \<Longrightarrow> search_places prov a b k r = v"
  by (simp add: search_places_def)



lemma search_try_accepted:
  assumes "prov (params a b k r) = Inr (JObj kvs)"
    and "status_accepted (or_default (map_of kvs ''status'') JNull)"
  shows "search_try prov a b k r =
     bind_exn (py_iter (or_default (map_of kvs ''results'') (JArr []))) (\<lambda>items.
     bind_exn (places_of a b items) (\<lambda>results. Inr ([], results)))"
  using assms by (simp add: search_try_def dict_get_JObj del: dict_get.simps)

lemma search_try_failure_empty:
  "search_try prov a b k r = Inr (msgs, rs) \<Longrightarrow> msgs \<noteq> [] \<Longrightarrow> rs = []"
  by (auto simp: search_try_def bind_exn_Inr_iff split: if_splits)

lemma search_places_failure_empty:
  "fst (search_places prov a b k r) \<noteq> [] \<Longrightarrow> snd (search_places prov a b k r) = []"
proof (cases "search_try prov a b k r")
  case (Inl e)
  then show ?thesis by (simp add: search_places_Inl)
next
  case (Inr v)
  assume "fst (search_places prov a b k r) \<noteq> []"
  with Inr search_try_failure_empty [of prov a b k r "fst v" "snd v"]
  show ?thesis by (simp add: search_places_Inr)
qed


lemma search_places_over_query_limit: "search_places provider_over_query_limit a b k r =
   ([GoogleApiError (JStr ''OVER_QUERY_LIMIT'')], [])"
  by (simp add: search_places_def search_try_def provider_over_query_limit_def status_accepted_def)


lemma place_of_Inr:
  assumes "place_of a b p = Inr r"
  shows "name r = or_default (json_field p ''name'') (JStr NO_NAME)"
    and "rating r = or_default (json_field p ''rating'') (JInt 0)"
    and "reviews r = or_default (json_field p ''user_ratings_total'') (JInt 0)"
    and "address r = or_default (json_field p ''vicinity'') (JStr [])"
    and "place_id r = or_default (json_field p ''place_id'') (JStr [])"
    and "lat r = or_default (json_path p [''geometry'', ''location'', ''lat'']) (JInt 0)"
    and "lng r = or_default (json_path p [''geometry'', ''location'', ''lng'']) (JInt 0)"
    and "is_open r = or_default (json_path p [''opening_hours'', ''open_now'']) JNull"
    and "\<exists>la lo. py_number (lat r) = Inr la \<and> py_number (lng r) = Inr lo
           \<and> haversine a b la lo = Inr (dist_km r)"
proof -
  from assms obtain geometry loc p_lat p_lng hours open_now p_name p_rating p_reviews
      p_address p_id lat2 lon2 d
    where g: "dict_get p ''geometry'' (JObj []) = Inr geometry"
      and l: "dict_get geometry ''location'' (JObj []) = Inr loc"
      and la: "dict_get loc ''lat'' (JInt 0) = Inr p_lat"
      and lo: "dict_get loc ''lng'' (JInt 0) = Inr p_lng"
      and o: "dict_get p ''opening_hours'' JNull = Inr hours"
      and n: "(if hours \<noteq> JNull then dict_get hours ''open_now'' JNull else Inr JNull)
               = Inr open_now"
      and f: "dict_get p ''name'' (JStr NO_NAME) = Inr p_name"
         "dict_get p ''rating'' (JInt 0) = Inr p_rating"
         "dict_get p ''user_ratings_total'' (JInt 0) = Inr p_reviews"
         "dict_get p ''vicinity'' (JStr []) = Inr p_address"
         "dict_get p ''place_id'' (JStr []) = Inr p_id"
      and h: "py_number p_lat = Inr lat2" "py_number p_lng = Inr lon2"
         "haversine a b lat2 lon2 = Inr d"
      and r: "r = \<lparr>name = p_name, rating = p_rating, reviews = p_reviews, lat = p_lat,
                   lng = p_lng, address = p_address, is_open = open_now, place_id = p_id,
                   dist_km = d\<rparr>"
    unfolding place_of_def bind_exn_Inr_iff by blast
  show "name r = or_default (json_field p ''name'') (JStr NO_NAME)"
    "rating r = or_default (json_field p ''rating'') (JInt 0)"
    "reviews r = or_default (json_field p ''user_ratings_total'') (JInt 0)"
    "address r = or_default (json_field p ''vicinity'') (JStr [])"
    "place_id r = or_default (json_field p ''place_id'') (JStr [])"
    using f by (simp_all add: r dict_get_Inr)
  have geo: "geometry = or_default (json_field p ''geometry'') (JObj [])"
    "loc = or_default (json_field geometry ''location'') (JObj [])"
    "p_lat = or_default (json_field loc ''lat'') (JInt 0)"
    "p_lng = or_default (json_field loc ''lng'') (JInt 0)"
    using g l la lo by (simp_all add: dict_get_Inr)
  show "lat r = or_default (json_path p [''geometry'', ''location'', ''lat'']) (JInt 0)"
    using geo by (simp add: r or_default_def split: option.splits)
  show "lng r = or_default (json_path p [''geometry'', ''location'', ''lng'']) (JInt 0)"
    using geo by (simp add: r or_default_def split: option.splits)
  have "hours = or_default (json_field p ''opening_hours'') JNull"
    using o by (simp add: dict_get_Inr)
  moreover have "open_now = (if hours \<noteq> JNull
      then or_default (json_field hours ''open_now'') JNull else JNull)"
    using n by (auto simp: dict_get_Inr split: if_splits)
  ultimately show "is_open r = or_default (json_path p [''opening_hours'', ''open_now'']) JNull"
    by (auto simp: r or_default_def split: option.splits)
  show "\<exists>la lo. py_number (lat r) = Inr la \<and> py_number (lng r) = Inr lo
           \<and> haversine a b la lo = Inr (dist_km r)"
    using h by (simp add: r)
qed






lemma place_of_at_origin:
  "place_of a b
     (JObj [(''name'', n), (''rating'', rt),
            (''geometry'', JObj [(''location'', JObj [(''lat'', JFloat a), (''lng'', JFloat b)])]),
            (''opening_hours'', JObj [(''open_now'', JBool True)])]) =
   Inr \<lparr>name = n, rating = rt, reviews = JInt 0, lat = JFloat a, lng = JFloat b,
        address = JStr [], is_open = JBool True, place_id = JStr [], dist_km = 0\<rparr>"
  by (simp add: place_of_def haversine_same)

lemma place_of_hotel_spa: "place_of 10.3119 123.8916 hotel_spa = Inr spa_place"
  unfolding hotel_spa_def spa_place_def by (rule place_of_at_origin)

lemma place_of_hotel_spa_at:
  assumes "a = 10.3119" "b = 123.8916"
  shows "place_of a b hotel_spa = Inr spa_place"
  unfolding assms by (rule place_of_hotel_spa)


lemma places_of_Inr:
  "places_of a b items = Inr rs \<Longrightarrow> r \<in> set rs \<Longrightarrow> \<exists>p\<in>set items. place_of a b p = Inr r"
proof (induction items arbitrary: rs)
  case Nil
  then show ?case by simp
next
  case (Cons p ps)
  from Cons.prems(1) obtain r0 rs0
    where h: "place_of a b p = Inr r0" "places_of a b ps = Inr rs0" "rs = r0 # rs0"
    by (auto simp: bind_exn_Inr_iff)
  show ?case
  proof (cases "r = r0")
    case True
    with h show ?thesis by simp
  next
    case False
    with Cons.prems(2) h have "r \<in> set rs0" by simp
    from Cons.IH [OF h(2) this] show ?thesis by auto
  qed
qed

lemma search_try_results:
  assumes "search_try prov a b k r = Inr (msgs, rs)" and "p \<in> set rs"
  shows "\<exists>item. place_of a b item = Inr p"
proof -
  from assms obtain items where "places_of a b items = Inr rs"
    by (auto simp: search_try_def bind_exn_Inr_iff split: if_splits)
  from places_of_Inr [OF this assms(2)] show ?thesis by blast
qed

lemma search_places_results:
  assumes "search_places prov a b k r = (msgs, rs)" and "p \<in> set rs"
  shows "\<exists>item. place_of a b item = Inr p"
proof (cases "search_try prov a b k r")
  case (Inl e)
  with assms show ?thesis by (simp add: search_places_Inl)
next
  case (Inr v)
  with assms have "search_try prov a b k r = Inr (msgs, rs)"
    by (simp add: search_places_Inr)
  from search_try_results [OF this assms(2)] show ?thesis .
qed

lemma place_of_ignores_dist_km:
  "place_of a b (JObj ((''dist_km'', v) # kvs)) = place_of a b (JObj kvs)"
  by (simp add: place_of_def)

text \<open>
  Claim C8. The \<open>dist_km\<close> of every record that \<^verbatim>\<open>search_places\<close> returns is not
  negative and is the value of \<open>haversine\<close> at the origin of the search and the latitude
  and longitude stored in the record. A \<^verbatim>\<open>dist_km\<close> sent by the provider is ignored.
\<close>

theorem dist_km_recomputed:
  "(search_places prov a b k r = (msgs, rs) \<and> p \<in> set rs \<longrightarrow>
      0 \<le> dist_km p
      \<and> (\<exists>la lo. py_number (lat p) = Inr la \<and> py_number (lng p) = Inr lo
            \<and> haversine a b la lo = Inr (dist_km p)))
   \<and> place_of a b (JObj ((''dist_km'', v) # kvs)) = place_of a b (JObj kvs)"
proof -
  have "0 \<le> dist_km p
      \<and> (\<exists>la lo. py_number (lat p) = Inr la \<and> py_number (lng p) = Inr lo
            \<and> haversine a b la lo = Inr (dist_km p))"
    if h: "search_places prov a b k r = (msgs, rs)" "p \<in> set rs"
  proof -
    from search_places_results [OF h] obtain item where "place_of a b item = Inr p" ..
    from place_of_Inr(9) [OF this] obtain la lo
      where d: "py_number (lat p) = Inr la" "py_number (lng p) = Inr lo"
        "haversine a b la lo = Inr (dist_km p)"
      by blast
    from haversine_nonneg [OF d(3)] d show ?thesis by blast
  qed
  then show ?thesis using place_of_ignores_dist_km by blast
qed

lemma search_places_provider_ok:
  "search_places provider_ok 10.3119 123.8916 k r = ([], [spa_place])"
  by (simp add: search_places_def search_try_def provider_ok_def status_accepted_def
      place_of_hotel_spa_at)

theorem dist_km_recomputed_witness:
  "search_places provider_ok 10.3119 123.8916 ''spa|massage'' 3000 = ([], [spa_place])
   \<and> spa_place \<in> set [spa_place]
   \<and> 0 \<le> dist_km spa_place
   \<and> (\<exists>la lo. py_number (lat spa_place) = Inr la \<and> py_number (lng spa_place) = Inr lo
         \<and> haversine 10.3119 123.8916 la lo = Inr (dist_km spa_place))"
proof -
  have s: "search_places provider_ok 10.3119 123.8916 ''spa|massage'' 3000 = ([], [spa_place])"
    by (rule search_places_provider_ok)
  have m: "spa_place \<in> set [spa_place]" by simp
  from s m dist_km_recomputed
    [of provider_ok "10.3119" "123.8916" "''spa|massage''" 3000 "[]" "[spa_place]" spa_place]
  show ?thesis by blast
qed





text \<open>
  Claim C5. An answer with the status \<^verbatim>\<open>ZERO_RESULTS\<close> and no results shows no error
  message and returns the empty list.
\<close>

theorem zero_results_is_success:
  assumes "prov (params a b k r) = Inr (JObj kvs)"
    and "map_of kvs ''status'' = Some (JStr ''ZERO_RESULTS'')"
    and "map_of kvs ''results'' = None \<or> map_of kvs ''results'' = Some (JArr [])"
  shows "search_places prov a b k r = ([], [])"
proof -
  have "status_accepted (or_default (map_of kvs ''status'') JNull)"
    using assms(2) by (simp add: status_accepted_def or_default_def)
  with search_try_accepted [of prov a b k r kvs] assms(1,3)
  have "search_try prov a b k r = Inr ([], [])"
    by (auto simp: or_default_def)
  then show ?thesis by (simp add: search_places_Inr)
qed

theorem zero_results_is_success_witness:
  "provider_zero_results (params 10.3119 123.8916 ''karaoke'' 1000) =
     Inr (JObj [(''status'', JStr ''ZERO_RESULTS''), (''results'', JArr [])])
   \<and> map_of [(''status'', JStr ''ZERO_RESULTS''), (''results'', JArr [])] ''status'' =
       Some (JStr ''ZERO_RESULTS'')
   \<and> map_of [(''status'', JStr ''ZERO_RESULTS''), (''results'', JArr [])] ''results'' =
       Some (JArr [])
   \<and> search_places provider_zero_results 10.3119 123.8916 ''karaoke'' 1000 = ([], [])"
proof -
  have h1: "provider_zero_results (params 10.3119 123.8916 ''karaoke'' 1000) =
     Inr (JObj [(''status'', JStr ''ZERO_RESULTS''), (''results'', JArr [])])"
    by (simp add: provider_zero_results_def)
  have h2: "map_of [(''status'', JStr ''ZERO_RESULTS''), (''results'', JArr [])] ''status'' =
       Some (JStr ''ZERO_RESULTS'')"
    by simp
  have h3: "map_of [(''status'', JStr ''ZERO_RESULTS''), (''results'', JArr [])] ''results'' =
       Some (JArr [])"
    by simp
  from zero_results_is_success
    [of provider_zero_results "10.3119" "123.8916" "''karaoke''" 1000
        "[(''status'', JStr ''ZERO_RESULTS''), (''results'', JArr [])]"] h1 h2 h3
  show ?thesis by blast
qed



subsection \<open>The cache of the search\<close>

lemma cached_hit:
  "cache_lookup s now (a, b, k, r) = Some v \<Longrightarrow>
   cached_search_places world now s a b k r = (v, s)"
  by (simp add: cached_search_places_def)

lemma cached_miss:
  "cache_lookup s now (a, b, k, r) = None \<Longrightarrow>
   cached_search_places world now s a b k r =
     (snd (search_places (world (calls s)) a b k r),
      \<lparr>cache = (cache s)((a, b, k, r) \<mapsto> (now, snd (search_places (world (calls s)) a b k r))),
       calls = calls s + 1\<rparr>)"
  by (simp add: cached_search_places_def Let_def)

lemma lookup_after_miss:
  assumes "cache_lookup s now (a, b, k, r) = None" and "now' < now + ttl"
  shows "cache_lookup (snd (cached_search_places world now s a b k r)) now' (a, b, k, r)
         = Some (fst (cached_search_places world now s a b k r))"
  using assms(2) by (simp add: cached_miss [OF assms(1)] cache_lookup_def)

lemma cached_calls_mono:
  "calls (snd (cached_search_places world now s a b k r)) \<le> calls s + 1"
  by (cases "cache_lookup s now (a, b, k, r)") (simp_all add: cached_hit cached_miss)

text \<open>
  Two searches with the same arguments, the second less than an hour after the first,
  invoke the provider at most once.
\<close>

lemma cached_twice_at_most_once:
  assumes "now' < now + ttl"
  shows "calls (snd (cached_search_places world now'
                  (snd (cached_search_places world now s a b k r)) a b k r))
         \<le> calls s + 1"
proof (cases "cache_lookup s now (a, b, k, r)")
  case None
  from lookup_after_miss [OF None assms, of world]
  have "cached_search_places world now' (snd (cached_search_places world now s a b k r)) a b k r
        = (fst (cached_search_places world now s a b k r),
           snd (cached_search_places world now s a b k r))"
    by (rule cached_hit)
  then show ?thesis using cached_calls_mono [of world now s a b k r] by simp
next
  case (Some v)
  then have "snd (cached_search_places world now s a b k r) = s"
    by (simp add: cached_hit)
  then show ?thesis using cached_calls_mono [of world now' s a b k r] by simp
qed

text \<open>
  A search that fails returns the empty list like any other, so the empty list is stored:
  the same search within the hour returns it again and the provider is not invoked.
\<close>

lemma failure_is_cached:
  assumes "cache_lookup s now (a, b, k, r) = None"
    and "fst (search_places (world (calls s)) a b k r) \<noteq> []"
    and "now' < now + ttl"
  shows "cached_search_places world now' (snd (cached_search_places world now s a b k r)) a b k r
         = ([], snd (cached_search_places world now s a b k r))"
proof -
  have "fst (cached_search_places world now s a b k r) = []"
    using search_places_failure_empty [OF assms(2)] by (simp add: cached_miss [OF assms(1)])
  with lookup_after_miss [OF assms(1,3), of world] show ?thesis
    by (simp add: cached_hit)
qed

lemma first_search_times_out:
  "cached_search_places world_recovering 0 empty_session 10.3119 123.8916 ''spa|massage'' 3000
   = ([], \<lparr>cache = (\<lambda>k. None)((10.3119, 123.8916, ''spa|massage'', 3000) \<mapsto> (0, [])),
           calls = 1\<rparr>)"
proof -
  have l: "cache_lookup empty_session 0 (10.3119, 123.8916, ''spa|massage'', 3000) = None"
    by (simp add: cache_lookup_def empty_session_def)
  have w: "world_recovering (calls empty_session) = provider_timeout"
    by (simp add: world_recovering_def empty_session_def)
  have t: "search_places provider_timeout 10.3119 123.8916 ''spa|massage'' 3000 = ([TimeoutMessage], [])"
    by (simp add: search_places_def search_try_def provider_timeout_def)
  show ?thesis
    unfolding cached_miss [OF l] w t by (simp add: empty_session_def)
qed

text \<open>
  Claim C6 at a concrete input. The first search times out, shows the message that asks to
  try again shortly, and invokes the provider once. The same search 60 seconds later finds
  the empty list in the cache: it returns the empty list and leaves the session as it
  was, with one invocation, although the provider would now answer with a place.
\<close>

theorem failed_search_is_cached:
  "fst (search_places (world_recovering 0) 10.3119 123.8916 ''spa|massage'' 3000) = [TimeoutMessage]
   \<and> calls session_after_timeout = 1
   \<and> cache_lookup session_after_timeout 60 (10.3119, 123.8916, ''spa|massage'', 3000) = Some []
   \<and> cached_search_places world_recovering 60 session_after_timeout
        10.3119 123.8916 ''spa|massage'' 3000 = ([], session_after_timeout)
   \<and> snd (search_places (world_recovering 1) 10.3119 123.8916 ''spa|massage'' 3000) = [spa_place]"
proof -
  have s: "session_after_timeout =
      \<lparr>cache = (\<lambda>k. None)((10.3119, 123.8916, ''spa|massage'', 3000) \<mapsto> (0, [])), calls = 1\<rparr>"
    unfolding session_after_timeout_def first_search_times_out by simp
  have 1: "fst (search_places (world_recovering 0) 10.3119 123.8916 ''spa|massage'' 3000)
      = [TimeoutMessage]"
    by (simp add: world_recovering_def search_places_def search_try_def provider_timeout_def)
  have 2: "calls session_after_timeout = 1"
    by (simp add: s)
  have 3: "cache_lookup session_after_timeout 60 (10.3119, 123.8916, ''spa|massage'', 3000) = Some []"
    by (simp add: s cache_lookup_def ttl_def)
  have 4: "cached_search_places world_recovering 60 session_after_timeout
        10.3119 123.8916 ''spa|massage'' 3000 = ([], session_after_timeout)"
    using 3 by (rule cached_hit)
  have "world_recovering 1 = provider_ok"
    by (simp add: world_recovering_def)
  then have 5: "snd (search_places (world_recovering 1) 10.3119 123.8916 ''spa|massage'' 3000)
      = [spa_place]"
    by (simp only: search_places_provider_ok snd_conv)
  from 1 2 3 4 5 show ?thesis by blast
qed

subsection \<open>Filter, sort, truncate\<close>

lemma filter_rating_numeric:
  "\<forall>p\<in>set raw. numeric_rating p \<Longrightarrow>
   filter_rating m raw = Inr (filter (rating_at_least m) raw)"
proof (induction raw)
  case Nil
  show ?case by simp
next
  case (Cons p ps)
  then obtain r where r: "py_number (rating p) = Inr r"
    by (auto simp: numeric_rating_def split: sum.splits)
  from Cons have "filter_rating m ps = Inr (filter (rating_at_least m) ps)" by simp
  moreover have "rating_at_least m p \<longleftrightarrow> m \<le> r"
    using r by (simp add: rating_at_least_def)
  ultimately show ?case using r by simp
qed

lemma filter_rating_Inr_numeric:
  "filter_rating m raw = Inr out \<Longrightarrow> \<forall>p\<in>set raw. numeric_rating p"
proof (induction raw arbitrary: out)
  case Nil
  show ?case by simp
next
  case (Cons p ps)
  then show ?case
    by (auto simp: bind_exn_Inr_iff numeric_rating_def)
qed

lemma prefix_filter_take: "prefix (filter P (take n xs)) (filter P xs)"
  by (rule filter_mono_prefix) (rule take_is_prefix)

lemma sorted_map_take: "sorted (map f xs) \<Longrightarrow> sorted (map f (take n xs))"
  by (simp add: take_map [symmetric] sorted_wrt_take)

text \<open>
  Claim C2. On every list of records whose ratings are numbers, for every threshold and
  every length, the pipeline returns a list: it has at most \<open>top_n\<close> records, each a
  record of the input with rating at least the threshold; it is sorted non-decreasing by
  \<open>dist_km\<close>; and the records of equal distance stand in the order of the input (they
  are a prefix of the qualifying input records of that distance).
\<close>

theorem recommend_filtered_sorted_truncated:
  assumes "\<forall>p\<in>set raw. numeric_rating p"
  shows "\<exists>out. recommend min_rating top_n raw = Inr out
           \<and> length out \<le> top_n
           \<and> (\<forall>p\<in>set out. p \<in> set raw \<and> rating_at_least min_rating p)
           \<and> sorted (map dist_km out)
           \<and> (\<forall>k. prefix (filter (\<lambda>p. dist_km p = k) out)
                         (filter (\<lambda>p. dist_km p = k) (filter (rating_at_least min_rating) raw)))"
proof -
  define filtered where "filtered = filter (rating_at_least min_rating) raw"
  define out where "out = take top_n (sort_key dist_km filtered)"
  have r: "recommend min_rating top_n raw = Inr out"
    using filter_rating_numeric [OF assms, of min_rating]
    by (simp add: recommend_def out_def filtered_def)
  have len: "length out \<le> top_n" by (simp add: out_def)
  have mem: "\<forall>p\<in>set out. p \<in> set raw \<and> rating_at_least min_rating p"
  proof
    fix p assume "p \<in> set out"
    then have "p \<in> set (sort_key dist_km filtered)"
      unfolding out_def by (rule in_set_takeD)
    then show "p \<in> set raw \<and> rating_at_least min_rating p"
      by (simp add: filtered_def)
  qed
  have srt: "sorted (map dist_km out)"
    unfolding out_def by (rule sorted_map_take) simp
  have stable: "prefix (filter (\<lambda>p. dist_km p = k) out) (filter (\<lambda>p. dist_km p = k) filtered)" for k
  proof -
    have "prefix (filter (\<lambda>p. dist_km p = k) out)
                 (filter (\<lambda>p. dist_km p = k) (sort_key dist_km filtered))"
      unfolding out_def by (rule prefix_filter_take)
    then show ?thesis by (simp add: sort_key_stable)
  qed
  from r len mem srt stable show ?thesis
    unfolding filtered_def by blast
qed


text \<open>
  The example of the specification: ratings 3.9, 4.0, 4.5 at distances 2, 1, 3 give the
  two qualifying records, the one at distance 1 first.
\<close>

theorem recommend_filtered_sorted_truncated_witness:
  "numeric_rating (a_place ''A'' 3.9 2)
   \<and> numeric_rating (a_place ''B'' 4.0 1)
   \<and> numeric_rating (a_place ''C'' 4.5 3)
   \<and> recommend 4.0 10 three_places = Inr [a_place ''B'' 4.0 1, a_place ''C'' 4.5 3]
   \<and> length [a_place ''B'' 4.0 1, a_place ''C'' 4.5 3] \<le> 10
   \<and> rating_at_least 4.0 (a_place ''B'' 4.0 1)
   \<and> rating_at_least 4.0 (a_place ''C'' 4.5 3)
   \<and> sorted (map dist_km [a_place ''B'' 4.0 1, a_place ''C'' 4.5 3])"
proof -
  have n: "numeric_rating (a_place ''A'' 3.9 2)" "numeric_rating (a_place ''B'' 4.0 1)"
    "numeric_rating (a_place ''C'' 4.5 3)"
    by (simp_all add: a_place_def numeric_rating_def)
  then have h: "\<forall>p\<in>set three_places. numeric_rating p"
    by (simp add: three_places_def)
  have v: "recommend 4.0 10 three_places = Inr [a_place ''B'' 4.0 1, a_place ''C'' 4.5 3]"
    by (simp add: recommend_def three_places_def a_place_def)
  from recommend_filtered_sorted_truncated [OF h, of "4.0" 10] obtain out
    where o: "recommend 4.0 10 three_places = Inr out" "length out \<le> 10"
      "\<forall>p\<in>set out. p \<in> set three_places \<and> rating_at_least 4.0 p"
      "sorted (map dist_km out)"
    by blast
  from o(1) v have e: "out = [a_place ''B'' 4.0 1, a_place ''C'' 4.5 3]"
    by simp
  from o(2) have 1: "length [a_place ''B'' 4.0 1, a_place ''C'' 4.5 3] \<le> 10"
    unfolding e .
  from o(3) have 2: "rating_at_least 4.0 (a_place ''B'' 4.0 1)"
    "rating_at_least 4.0 (a_place ''C'' 4.5 3)"
    unfolding e by simp_all
  from o(4) have 3: "sorted (map dist_km [a_place ''B'' 4.0 1, a_place ''C'' 4.5 3])"
    unfolding e .
  from n v 1 2 3 show ?thesis by blast
qed

subsection \<open>The Grab estimate and the page\<close>

lemma top10_numeric:
  "\<forall>p\<in>set raw. numeric_rating p \<Longrightarrow>
   top10 raw = Inr (take 10 (sort_key dist_km (filter (rating_at_least 4.0) raw)))"
  by (simp add: top10_def recommend_def filter_rating_numeric)

lemma render_cards_numeric:
  "\<forall>p\<in>set t. numeric_reviews p \<Longrightarrow> \<exists>cards. render_cards i t = Inr cards"
proof (induction t arbitrary: i)
  case Nil
  show ?case by simp
next
  case (Cons p ps)
  then obtain n where n: "format_thousands (reviews p) = Inr n"
    by (auto simp: numeric_reviews_def split: sum.splits)
  from Cons obtain cards where "render_cards (i + 1) ps = Inr cards"
    by fastforce
  with n show ?case by simp
qed

lemma top10_Inr:
  assumes "top10 raw = Inr t"
  shows "t = take 10 (sort_key dist_km (filter (rating_at_least 4.0) raw))"
proof -
  from assms obtain f where f: "filter_rating 4.0 raw = Inr f"
    by (auto simp: top10_def recommend_def bind_exn_Inr_iff)
  from filter_rating_Inr_numeric [OF f] have "\<forall>p\<in>set raw. numeric_rating p" .
  from top10_numeric [OF this] assms show ?thesis by simp
qed

lemma run_page_Rendered:
  assumes "run_page raw = Rendered pg"
  shows "top10 raw = Inr (shown pg)" and "shown pg \<noteq> []"
    and "grab pg = Some (avg_dist (shown pg), grab_est (avg_dist (shown pg)))"
  using assms
  by (auto simp: run_page_def grab_info_def split: if_splits sum.splits)

lemma run_page_renders:
  assumes "\<forall>p\<in>set raw. numeric_rating p \<and> numeric_reviews p"
    and "filter (rating_at_least 4.0) raw \<noteq> []"
  shows "\<exists>pg. run_page raw = Rendered pg"
proof -
  define t where "t = take 10 (sort_key dist_km (filter (rating_at_least 4.0) raw))"
  have raw: "raw \<noteq> []" using assms(2) by auto
  have top: "top10 raw = Inr t"
    unfolding t_def using assms(1) by (intro top10_numeric) simp
  have "sort_key dist_km (filter (rating_at_least 4.0) raw) \<noteq> []"
    by (metis assms(2) length_0_conv length_sort)
  then have ne: "t \<noteq> []"
    unfolding t_def by (cases "sort_key dist_km (filter (rating_at_least 4.0) raw)") simp_all
  have "set t \<subseteq> set raw"
    unfolding t_def using set_take_subset [of 10 "sort_key dist_km (filter (rating_at_least 4.0) raw)"]
    by auto
  with assms(1) have "\<forall>p\<in>set t. numeric_reviews p" by auto
  from render_cards_numeric [OF this, of 1] obtain cards
    where "render_cards 1 t = Inr cards" ..
  with raw top ne show ?thesis by (simp add: run_page_def)
qed

text \<open>
  Claim C3. A page is rendered exactly with the places that the filter, the sort and the
  truncation leave of the input, and its transport estimate is
  \<open>max 60 (40 + avg * 15)\<close>, where \<open>avg\<close> is the sum of the distances of these shown
  places divided by their number; an average of 0 km gives exactly 60, an average of
  10 km exactly 190. When every rating and every review count of the input is a number
  and a place passes the filter, the page is rendered.
\<close>

theorem grab_note_of_top10:
  "(run_page raw = Rendered pg \<longrightarrow>
      shown pg = take 10 (sort_key dist_km (filter (rating_at_least 4.0) raw))
      \<and> shown pg \<noteq> []
      \<and> grab pg =
          Some (sum_list (map dist_km (shown pg)) / real (length (shown pg)),
                max 60 (40 + sum_list (map dist_km (shown pg)) / real (length (shown pg)) * 15)))
   \<and> ((\<forall>p\<in>set raw. numeric_rating p \<and> numeric_reviews p)
        \<and> filter (rating_at_least 4.0) raw \<noteq> [] \<longrightarrow>
        (\<exists>page. run_page raw = Rendered page))
   \<and> (run_page raw = Rendered pg \<and> grab pg = Some (avg, est) \<longrightarrow>
        (avg = 0 \<longrightarrow> est = 60) \<and> (avg = 10 \<longrightarrow> est = 190))"
proof -
  have 1: "shown pg = take 10 (sort_key dist_km (filter (rating_at_least 4.0) raw))
      \<and> shown pg \<noteq> []
      \<and> grab pg =
          Some (sum_list (map dist_km (shown pg)) / real (length (shown pg)),
                max 60 (40 + sum_list (map dist_km (shown pg)) / real (length (shown pg)) * 15))"
    if r: "run_page raw = Rendered pg"
    using run_page_Rendered [OF r] top10_Inr [of raw "shown pg"]
    by (simp add: avg_dist_def grab_est_def)
  have 3: "(avg = 0 \<longrightarrow> est = 60) \<and> (avg = 10 \<longrightarrow> est = 190)"
    if r: "run_page raw = Rendered pg" and g: "grab pg = Some (avg, est)"
    using run_page_Rendered(3) [OF r] g by (auto simp: grab_est_def)
  from 1 3 run_page_renders [of raw] show ?thesis by blast
qed

text \<open>
  Of a place rated 3.9 at 2 km and one rated 4.0 at 10 km only the second is shown, and the
  estimate is 190: the average is taken over the shown places, not over the input.
\<close>

theorem grab_note_of_top10_witness:
  "numeric_rating (a_place ''A'' 3.9 2) \<and> numeric_reviews (a_place ''A'' 3.9 2)
   \<and> numeric_rating (a_place ''B'' 4.0 10) \<and> numeric_reviews (a_place ''B'' 4.0 10)
   \<and> filter (rating_at_least 4.0) two_places \<noteq> []
   \<and> (\<exists>page. run_page two_places = Rendered page
         \<and> shown page = [a_place ''B'' 4.0 10]
         \<and> grab page = Some (10, 190))
   \<and> numeric_rating (a_place ''C'' 4.5 0) \<and> numeric_reviews (a_place ''C'' 4.5 0)
   \<and> filter (rating_at_least 4.0) [a_place ''C'' 4.5 0] \<noteq> []
   \<and> (\<exists>page. run_page [a_place ''C'' 4.5 0] = Rendered page \<and> grab page = Some (0, 60))"
proof -
  note t = grab_note_of_top10
  have n: "numeric_rating (a_place ''A'' 3.9 2)" "numeric_reviews (a_place ''A'' 3.9 2)"
    "numeric_rating (a_place ''B'' 4.0 10)" "numeric_reviews (a_place ''B'' 4.0 10)"
    by (simp_all add: a_place_def numeric_rating_def numeric_reviews_def)
  then have h: "\<forall>p\<in>set two_places. numeric_rating p \<and> numeric_reviews p"
    by (simp add: two_places_def)
  have f: "filter (rating_at_least 4.0) two_places = [a_place ''B'' 4.0 10]"
    by (simp add: two_places_def rating_at_least_def a_place_def)
  then have f0: "filter (rating_at_least 4.0) two_places \<noteq> []" by simp
  from t [of two_places] h f0 obtain page where p: "run_page two_places = Rendered page"
    by blast
  from t [of two_places page] p
  have s: "shown page = take 10 (sort_key dist_km (filter (rating_at_least 4.0) two_places))"
    and g: "grab page =
          Some (sum_list (map dist_km (shown page)) / real (length (shown page)),
                max 60 (40 + sum_list (map dist_km (shown page)) / real (length (shown page)) * 15))"
    by blast+
  from s have s': "shown page = [a_place ''B'' 4.0 10]"
    unfolding f by simp
  from g have g': "grab page = Some (10, 190)"
    unfolding s' by (simp add: a_place_def)
  have n0: "numeric_rating (a_place ''C'' 4.5 0)" "numeric_reviews (a_place ''C'' 4.5 0)"
    by (simp_all add: a_place_def numeric_rating_def numeric_reviews_def)
  then have h0: "\<forall>p\<in>set [a_place ''C'' 4.5 0]. numeric_rating p \<and> numeric_reviews p"
    by simp
  have e: "filter (rating_at_least 4.0) [a_place ''C'' 4.5 0] = [a_place ''C'' 4.5 0]"
    by (simp add: rating_at_least_def a_place_def)
  then have e0: "filter (rating_at_least 4.0) [a_place ''C'' 4.5 0] \<noteq> []" by simp
  from t [of "[a_place ''C'' 4.5 0]"] h0 e0 obtain page0
    where p0: "run_page [a_place ''C'' 4.5 0] = Rendered page0"
    by blast
  from t [of "[a_place ''C'' 4.5 0]" page0] p0
  have s0: "shown page0 =
      take 10 (sort_key dist_km (filter (rating_at_least 4.0) [a_place ''C'' 4.5 0]))"
    and g0: "grab page0 =
          Some (sum_list (map dist_km (shown page0)) / real (length (shown page0)),
                max 60 (40 + sum_list (map dist_km (shown page0)) / real (length (shown page0)) * 15))"
    by blast+
  from s0 have s0': "shown page0 = [a_place ''C'' 4.5 0]"
    unfolding e by simp
  from g0 have g0': "grab page0 = Some (0, 60)"
    unfolding s0' by (simp add: a_place_def)
  from n f0 p s' g' n0 e0 p0 g0' show ?thesis by blast
qed

text \<open>
  Claim C4, as stated, fails: on the empty list the script stops with the warning that
  the search found nothing. No page with an empty list, zero metrics and the estimate 60
  is produced, and the Grab note is guarded by \<^verbatim>\<open>if top10:\<close>.
\<close>

theorem run_page_empty_counterexample:
  "run_page [] = Stopped NoSearchResults
   \<and> run_page [] \<noteq> Rendered \<lparr>shown = [], shown_count = 0, raw_count = 0, grab = Some (0, 60)\<rparr>
   \<and> grab_info [] = None"
  by (simp add: run_page_def grab_info_def)

text \<open>
  Claim C4, amended. On the empty list the script stops with the warning and computes no
  estimate. A page is rendered only for a non-empty input with a non-empty shown list,
  and its estimate is at least the base fare 60.
\<close>

theorem run_page_stops_on_empty:
  "run_page [] = Stopped NoSearchResults
   \<and> grab_info [] = None
   \<and> (run_page raw = Rendered page0 \<longrightarrow>
        raw \<noteq> [] \<and> shown page0 \<noteq> []
        \<and> (\<exists>avg est. grab page0 = Some (avg, est) \<and> 60 \<le> est))"
  by (auto simp: run_page_def grab_info_def grab_est_def split: if_splits sum.splits)

theorem run_page_stops_on_empty_witness:
  "run_page [a_place ''B'' 4.0 0] =
     Rendered \<lparr>shown = [a_place ''B'' 4.0 0], shown_count = 1, raw_count = 1,
               grab = Some (0, 60)\<rparr>
   \<and> [a_place ''B'' 4.0 0] \<noteq> []
   \<and> (\<exists>avg est. grab \<lparr>shown = [a_place ''B'' 4.0 0], shown_count = 1, raw_count = 1,
               grab = Some (0, 60)\<rparr> = Some (avg, est) \<and> 60 \<le> est)"
proof -
  have r: "run_page [a_place ''B'' 4.0 0] =
     Rendered \<lparr>shown = [a_place ''B'' 4.0 0], shown_count = 1, raw_count = 1,
               grab = Some (0, 60)\<rparr>"
    by (simp add: run_page_def top10_def recommend_def a_place_def grab_info_def
        avg_dist_def grab_est_def)
  from r run_page_stops_on_empty [of "[a_place ''B'' 4.0 0]"
      "\<lparr>shown = [a_place ''B'' 4.0 0], shown_count = 1, raw_count = 1, grab = Some (0, 60)\<rparr>"]
  show ?thesis by blast
qed

end
